theory Spec2Isabelle
  imports Main "HOL-Library.Word" "HOL-Library.AList"
begin

section \<open>Data usage accounting of cmd/data-usage.go\<close>

text \<open>
  The file \<^verbatim>\<open>cmd/data-usage.go\<close> holds three functions:
  \<^verbatim>\<open>storeDataUsageInBackend\<close>, \<^verbatim>\<open>loadPrefixUsageFromBackend\<close> and
  \<^verbatim>\<open>loadDataUsageFromBackend\<close>. Each is embedded below as a HOL function of the
  same name. The types, constants and helpers they use and that are declared in
  other files of the package (the usage cache, the object layer, the error
  classification, the replication configuration lookup) are parameters of the
  embedding, collected in records of functions.
\<close>

subsection \<open>Machine integers, errors and Go maps\<close>

type_synonym uint64 = "64 word"
type_synonym int64 = "64 word"

text \<open>
  Modelled from the spec: the error values of the package are declared outside this
  file. The spec separates absence (object not found, bucket not found) from every
  other failure; the datatype keeps the two absence classes apart and gives every
  other failure a message.
\<close>

datatype error = ObjectNotFound | BucketNotFound | OtherError string

text \<open>
  A Go value of type \<^verbatim>\<open>error\<close> may be \<^verbatim>\<open>nil\<close>: it is an \<open>error option\<close>.
  Modelled from the spec: \<^verbatim>\<open>isErrObjectNotFound\<close> and \<^verbatim>\<open>isErrBucketNotFound\<close>
  are declared outside this file; they recognise the two absence classes, and
  neither holds of \<^verbatim>\<open>nil\<close>.
\<close>

fun isErrObjectNotFound :: "error option \<Rightarrow> bool" where
  "isErrObjectNotFound (Some ObjectNotFound) = True"
| "isErrObjectNotFound _ = False"

fun isErrBucketNotFound :: "error option \<Rightarrow> bool" where
  "isErrBucketNotFound (Some BucketNotFound) = True"
| "isErrBucketNotFound _ = False"

text \<open>
  A Go map is \<^verbatim>\<open>nil\<close> or holds entries. The entries are an association list; its
  order is the order in which \<^verbatim>\<open>range\<close> visits them in the run at hand, which Go
  leaves unspecified, so every statement below is about every order. A map that
  Go can build has no key twice (\<open>wf_gomap\<close>).
\<close>

datatype ('k, 'v) gomap = NilMap | GoMap "('k \<times> 'v) list"

fun entries :: "('k, 'v) gomap \<Rightarrow> ('k \<times> 'v) list" where
  "entries NilMap = []"
| "entries (GoMap kvs) = kvs"

definition len :: "('k, 'v) gomap \<Rightarrow> nat" where
  "len m = length (entries m)"

definition lookup :: "('k, 'v) gomap \<Rightarrow> 'k \<Rightarrow> 'v option" where
  "lookup m k = map_of (entries m) k"

definition wf_gomap :: "('k, 'v) gomap \<Rightarrow> bool" where
  "wf_gomap m = distinct (map fst (entries m))"

subsection \<open>Constants\<close>

text \<open>
  Modelled from the spec: \<^verbatim>\<open>slashSeparator\<close> is declared outside this file; the
  spec writes the snapshot path as the bucket, a slash and the snapshot name.
\<close>

definition slashSeparator :: string where
  "slashSeparator = ''/''"

definition dataUsageObjName :: string where
  "dataUsageObjName = ''.usage.json''"

definition dataUsageCacheName :: string where
  "dataUsageCacheName = ''.usage-cache.bin''"

text \<open>\<^verbatim>\<open>strings.TrimPrefix\<close> of the Go library.\<close>

definition TrimPrefix :: "string \<Rightarrow> string \<Rightarrow> string" where
  "TrimPrefix s p = (if take (length p) s = p then drop (length p) s else s)"

subsection \<open>loadPrefixUsageFromBackend\<close>

text \<open>
  The usage entry of a path. Only its \<^verbatim>\<open>Size\<close> is read here; the conversion
  \<^verbatim>\<open>uint64(usageInfo.Size)\<close> keeps the 64 bits as they are.
\<close>

record dataUsageEntry =
  Size :: int64

record 'er erasureSets =
  sets :: "'er list"

record 'er erasureServerPools =
  serverPools :: "'er erasureSets list"

text \<open>
  The object layer is an interface; the type assertion
  \<^verbatim>\<open>objAPI.(*erasureServerPools)\<close> succeeds on one implementation only. Every
  other value of the interface, \<^verbatim>\<open>nil\<close> included, is an \<open>OtherObjectLayer\<close>.
\<close>

datatype ('er, 'o) ObjectLayer =
  ErasureServerPools "'er erasureServerPools"
| OtherObjectLayer 'o

text \<open>
  The methods of \<^verbatim>\<open>dataUsageCache\<close> and \<^verbatim>\<open>decodeDirObject\<close> are declared outside
  this file and are parameters. \<open>cache_load\<close> is \<^verbatim>\<open>cache.load(ctx, er, name)\<close>:
  it returns the error, or the cache the receiver holds afterwards.
  Modelled from the spec: a load replaces the tree wholesale, so the cache after a
  load depends on the shard and the path only, not on what the shared variable
  \<^verbatim>\<open>cache\<close> held before. \<open>cache_find\<close> is \<^verbatim>\<open>cache.find(bucket)\<close> (\<open>None\<close> is
  \<^verbatim>\<open>nil\<close>), \<open>cache_flattenChildrens\<close> is \<^verbatim>\<open>cache.flattenChildrens(*root)\<close>, a Go
  map listed in the order the loop visits it.
\<close>

record ('er, 'c) dataUsageCacheOps =
  cache_load :: "'er \<Rightarrow> string \<Rightarrow> error + 'c"
  cache_find :: "'c \<Rightarrow> string \<Rightarrow> dataUsageEntry option"
  cache_flattenChildrens :: "'c \<Rightarrow> dataUsageEntry \<Rightarrow> (string \<times> dataUsageEntry) list"
  decodeDirObject :: "string \<Rightarrow> string"

text \<open>
  The body of the innermost loop, lines 86 to 88: \<^verbatim>\<open>m[prefix] += uint64(usageInfo.Size)\<close>.
  A key that is not in the map yet reads as 0; the addition is that of \<^verbatim>\<open>uint64\<close>.
\<close>

definition addPrefixUsage ::
  "('er, 'c) dataUsageCacheOps \<Rightarrow> string \<Rightarrow> string \<times> dataUsageEntry \<Rightarrow>
   (string \<times> uint64) list \<Rightarrow> (string \<times> uint64) list" where
  "addPrefixUsage ops bucket kv m =
     (let prefix = decodeDirObject ops (TrimPrefix (fst kv) (bucket @ slashSeparator))
      in AList.update prefix
           ((case map_of m prefix of None \<Rightarrow> 0 | Some v \<Rightarrow> v) + Size (snd kv)) m)"

text \<open>
  The loop over the sets of one pool, lines 75 to 91. The state is the map \<open>m\<close> and
  the list of snapshot reads made so far (shard and path), in order.
\<close>

fun setsLoop ::
  "('er, 'c) dataUsageCacheOps \<Rightarrow> string \<Rightarrow> 'er list \<Rightarrow>
   (string \<times> uint64) list \<times> ('er \<times> string) list \<Rightarrow>
   (string \<times> uint64) list \<times> ('er \<times> string) list" where
  "setsLoop ops bucket [] st = st"
| "setsLoop ops bucket (er # ers) (m, reads) =
     (let name = bucket @ slashSeparator @ dataUsageCacheName;
          reads' = reads @ [(er, name)]
      in case cache_load ops er name of
           Inl err \<Rightarrow> setsLoop ops bucket ers (m, reads')
         | Inr cache \<Rightarrow>
             (case cache_find ops cache bucket of
                None \<Rightarrow> setsLoop ops bucket ers (m, reads')
              | Some root \<Rightarrow>
                  setsLoop ops bucket ers
                    (fold (addPrefixUsage ops bucket) (cache_flattenChildrens ops cache root) m,
                     reads')))"

text \<open>The loop over the pools, lines 74 to 92.\<close>

fun poolsLoop ::
  "('er, 'c) dataUsageCacheOps \<Rightarrow> string \<Rightarrow> 'er erasureSets list \<Rightarrow>
   (string \<times> uint64) list \<times> ('er \<times> string) list \<Rightarrow>
   (string \<times> uint64) list \<times> ('er \<times> string) list" where
  "poolsLoop ops bucket [] st = st"
| "poolsLoop ops bucket (pool # pools) st =
     poolsLoop ops bucket pools (setsLoop ops bucket (sets pool) st)"

text \<open>
  What the function returns, the map and the error, and what it did on the way,
  the snapshot reads.
\<close>

record 'er prefixUsage =
  usage :: "(string, uint64) gomap"
  failure :: "error option"
  snapshotReads :: "('er \<times> string) list"

definition loadPrefixUsageFromBackend ::
  "('er, 'c) dataUsageCacheOps \<Rightarrow> ('er, 'o) ObjectLayer \<Rightarrow> string \<Rightarrow> 'er prefixUsage" where
  "loadPrefixUsageFromBackend ops objAPI bucket =
     (case objAPI of
        OtherObjectLayer other \<Rightarrow> \<lparr>usage = GoMap [], failure = None, snapshotReads = []\<rparr>
      | ErasureServerPools z \<Rightarrow>
          (case poolsLoop ops bucket (serverPools z) ([], []) of
             (m, reads) \<Rightarrow> \<lparr>usage = GoMap m, failure = None, snapshotReads = reads\<rparr>))"

text \<open>
  The words of the spec, to compare the code with. The shards of an object layer,
  pool by pool; what one shard contributes, as pairs of a prefix and a size: nothing
  when its snapshot does not load or holds no root for the bucket, else one pair per
  flattened entry, keyed by the identifier with the bucket prefix stripped and the
  directory marker decoded; and the total of a prefix over a list of contributions,
  absent when nothing contributes to it.
\<close>

fun shardsOf :: "('er, 'o) ObjectLayer \<Rightarrow> 'er list" where
  "shardsOf (ErasureServerPools z) = concat (map sets (serverPools z))"
| "shardsOf (OtherObjectLayer other) = []"

definition shardContribution ::
  "('er, 'c) dataUsageCacheOps \<Rightarrow> string \<Rightarrow> 'er \<Rightarrow> (string \<times> uint64) list" where
  "shardContribution ops bucket er =
     (case cache_load ops er (bucket @ slashSeparator @ dataUsageCacheName) of
        Inl e \<Rightarrow> []
      | Inr cache \<Rightarrow>
          (case cache_find ops cache bucket of
             None \<Rightarrow> []
           | Some root \<Rightarrow>
               map (\<lambda>kv. (decodeDirObject ops (TrimPrefix (fst kv) (bucket @ slashSeparator)),
                          Size (snd kv)))
                 (cache_flattenChildrens ops cache root)))"

definition prefixTotal :: "(string \<times> uint64) list \<Rightarrow> string \<Rightarrow> uint64 option" where
  "prefixTotal cs p =
     (if p \<in> fst ` set cs then Some (sum_list (map snd (filter (\<lambda>kv. fst kv = p) cs)))
      else None)"

text \<open>
  Whether the snapshot of a shard loads, and the object layer with only the shards
  that satisfy a predicate, pool by pool.
\<close>

definition snapshotLoads :: "('er, 'c) dataUsageCacheOps \<Rightarrow> string \<Rightarrow> 'er \<Rightarrow> bool" where
  "snapshotLoads ops bucket er =
     (case cache_load ops er (bucket @ slashSeparator @ dataUsageCacheName) of
        Inl e \<Rightarrow> False
      | Inr cache \<Rightarrow> True)"

fun keepShards :: "('er \<Rightarrow> bool) \<Rightarrow> ('er, 'o) ObjectLayer \<Rightarrow> ('er, 'o) ObjectLayer" where
  "keepShards ok (ErasureServerPools z) =
     ErasureServerPools
       \<lparr>serverPools = map (\<lambda>pool. \<lparr>sets = filter ok (sets pool)\<rparr>) (serverPools z)\<rparr>"
| "keepShards ok (OtherObjectLayer other) = OtherObjectLayer other"

text \<open>Adding a list of contributions into a map, one after the other.\<close>

definition accumulate ::
  "(string \<times> uint64) list \<Rightarrow> (string \<times> uint64) list \<Rightarrow> (string \<times> uint64) list" where
  "accumulate cs m =
     fold (\<lambda>kv m. AList.update (fst kv)
             ((case map_of m (fst kv) of None \<Rightarrow> 0 | Some v \<Rightarrow> v) + snd kv) m) cs m"

subsection \<open>loadDataUsageFromBackend\<close>

text \<open>
  The structures of the report are declared outside this file. The records hold
  the fields this file names; \<^verbatim>\<open>BucketUsageInfo{Size: size}\<close> leaves every other
  field at its zero value. The sizes and counters are \<^verbatim>\<open>uint64\<close>, as the entries of
  \<^verbatim>\<open>BucketSizes\<close> are (line 122), so that \<^verbatim>\<open>> 0\<close> is the unsigned comparison.
\<close>

record BucketUsageInfo =
  Size :: uint64
  ReplicationPendingSizeV1 :: uint64
  ReplicationFailedSizeV1 :: uint64
  ReplicatedSizeV1 :: uint64
  ReplicationPendingCountV1 :: uint64
  ReplicationFailedCountV1 :: uint64

record BucketTargetUsageInfo =
  ReplicationPendingSize :: uint64
  ReplicationFailedSize :: uint64
  ReplicatedSize :: uint64
  ReplicationPendingCount :: uint64
  ReplicationFailedCount :: uint64

record DataUsageInfo =
  ReplicationInfo :: "(string, BucketTargetUsageInfo) gomap"
  BucketsUsage :: "(string, BucketUsageInfo) gomap"
  BucketSizes :: "(string, uint64) gomap"

text \<open>The zero value \<^verbatim>\<open>DataUsageInfo{}\<close>: every map is \<^verbatim>\<open>nil\<close>.\<close>

definition zeroDataUsageInfo :: DataUsageInfo where
  "zeroDataUsageInfo = \<lparr>ReplicationInfo = NilMap, BucketsUsage = NilMap, BucketSizes = NilMap\<rparr>"

text \<open>The replication configuration; only its \<^verbatim>\<open>RoleArn\<close> is read.\<close>

record Config =
  RoleArn :: string

text \<open>
  The names \<^verbatim>\<open>minioMetaBucket\<close>, \<^verbatim>\<open>bucketMetaPrefix\<close> and \<^verbatim>\<open>SlashSeparator\<close> are
  declared outside this file. The first two are parameters.
  Modelled from the spec: the separator is the slash.
\<close>

definition SlashSeparator :: string where
  "SlashSeparator = ''/''"

record metaNames =
  minioMetaBucket :: string
  bucketMetaPrefix :: string

definition dataUsageBucket :: "'a metaNames_scheme \<Rightarrow> string" where
  "dataUsageBucket env = minioMetaBucket env @ SlashSeparator @ bucketMetaPrefix env"

text \<open>
  What \<^verbatim>\<open>loadDataUsageFromBackend\<close> calls and this file does not hold:
  \<^verbatim>\<open>objAPI.GetObjectNInfo\<close> (the error, or the reader), the JSON decoder on that reader
  (the error, or the decoded report) and \<^verbatim>\<open>getReplicationConfig\<close> (the error, or the
  configuration). These are parameters.
\<close>

text \<open>
  Modelled from the spec: \<^verbatim>\<open>toObjectErr\<close> is declared outside this file. Line 103
  calls it on a read failure that is not \<^verbatim>\<open>nil\<close> and is not an absence. The spec
  makes absence (object or bucket not found) the one read outcome that is not an
  error, and has the caller of the load see a valid report or an error: on an error
  \<^verbatim>\<open>toObjectErr\<close> returns an error, never \<^verbatim>\<open>nil\<close>. Which error it returns, from the
  failure, the bucket and the object, is a parameter.
\<close>

record 'r reportBackend = metaNames +
  GetObjectNInfo :: "string \<Rightarrow> string \<Rightarrow> error + 'r"
  Decode :: "'r \<Rightarrow> error + DataUsageInfo"
  toObjectErr :: "error \<Rightarrow> string \<Rightarrow> string \<Rightarrow> error"
  getReplicationConfig :: "string \<Rightarrow> error + Config"

text \<open>Lines 113 to 118: the newer map from the older one, when the newer one is empty.\<close>

definition forwardCompat :: "DataUsageInfo \<Rightarrow> DataUsageInfo" where
  "forwardCompat dataUsageInfo =
     (if len (BucketsUsage dataUsageInfo) = 0
      then dataUsageInfo\<lparr>BucketsUsage :=
             GoMap (fold (\<lambda>(bucket, size) m.
                            AList.update bucket
                              \<lparr>Size = size, ReplicationPendingSizeV1 = 0,
                               ReplicationFailedSizeV1 = 0, ReplicatedSizeV1 = 0,
                               ReplicationPendingCountV1 = 0, ReplicationFailedCountV1 = 0\<rparr> m)
                      (entries (BucketSizes dataUsageInfo)) [])\<rparr>
      else dataUsageInfo)"

text \<open>Lines 121 to 126: the older map from the newer one, when the older one is empty.\<close>

definition backwardCompat :: "DataUsageInfo \<Rightarrow> DataUsageInfo" where
  "backwardCompat dataUsageInfo =
     (if len (BucketSizes dataUsageInfo) = 0
      then dataUsageInfo\<lparr>BucketSizes :=
             GoMap (fold (\<lambda>(bucket, bui) m. AList.update bucket (Size bui) m)
                      (entries (BucketsUsage dataUsageInfo)) [])\<rparr>
      else dataUsageInfo)"

text \<open>The test of lines 129 and 130 on the legacy counters of a bucket.\<close>

definition legacyCountersSet :: "BucketUsageInfo \<Rightarrow> bool" where
  "legacyCountersSet bui =
     (ReplicatedSizeV1 bui > 0 \<or> ReplicationFailedCountV1 bui > 0 \<or>
      ReplicationFailedSizeV1 bui > 0 \<or> ReplicationPendingCountV1 bui > 0)"

text \<open>
  Lines 128 to 144: the loop over the entries of \<^verbatim>\<open>BucketsUsage\<close>, in the order
  \<^verbatim>\<open>range\<close> visits them. A bucket that passes the test first assigns a fresh map to
  \<^verbatim>\<open>ReplicationInfo\<close> (line 131), then looks its configuration up and returns the
  error when that fails, else stores one entry under the target of the bucket.
\<close>

fun replicationLoop ::
  "'r reportBackend \<Rightarrow> (string \<times> BucketUsageInfo) list \<Rightarrow> DataUsageInfo \<Rightarrow>
   error + DataUsageInfo" where
  "replicationLoop env [] dataUsageInfo = Inr dataUsageInfo"
| "replicationLoop env ((bucket, bui) # rest) dataUsageInfo =
     (if legacyCountersSet bui
      then (case getReplicationConfig env bucket of
              Inl err \<Rightarrow> Inl err
            | Inr cfg \<Rightarrow>
                replicationLoop env rest
                  (dataUsageInfo\<lparr>ReplicationInfo :=
                     GoMap (AList.update (RoleArn cfg)
                              \<lparr>ReplicationPendingSize = ReplicationPendingSizeV1 bui,
                               ReplicationFailedSize = ReplicationFailedSizeV1 bui,
                               ReplicatedSize = ReplicatedSizeV1 bui,
                               ReplicationPendingCount = ReplicationPendingCountV1 bui,
                               ReplicationFailedCount = ReplicationFailedCountV1 bui\<rparr> [])\<rparr>))
      else replicationLoop env rest dataUsageInfo)"

text \<open>The function: the report and the error it returns.\<close>

definition loadDataUsageFromBackend :: "'r reportBackend \<Rightarrow> DataUsageInfo \<times> error option" where
  "loadDataUsageFromBackend env =
     (case GetObjectNInfo env (dataUsageBucket env) dataUsageObjName of
        Inl err \<Rightarrow>
          if isErrObjectNotFound (Some err) \<or> isErrBucketNotFound (Some err)
          then (zeroDataUsageInfo, None)
          else (zeroDataUsageInfo,
                Some (toObjectErr env err (dataUsageBucket env) dataUsageObjName))
      | Inr r \<Rightarrow>
          (case Decode env r of
             Inl err \<Rightarrow> (zeroDataUsageInfo, Some err)
           | Inr decoded \<Rightarrow>
               (let dataUsageInfo = backwardCompat (forwardCompat decoded)
                in case replicationLoop env (entries (BucketsUsage dataUsageInfo)) dataUsageInfo of
                     Inl err \<Rightarrow> (zeroDataUsageInfo, Some err)
                   | Inr migrated \<Rightarrow> (migrated, None))))"

subsection \<open>storeDataUsageInBackend\<close>

text \<open>
  What \<^verbatim>\<open>storeDataUsageInBackend\<close> calls and this file does not hold: the JSON
  encoder (the error, or the bytes), \<^verbatim>\<open>hash.NewReader\<close> on the bytes with its four
  further arguments (the error, or the reader) and \<^verbatim>\<open>objAPI.PutObject\<close>, which
  changes the state of the object layer and returns a Go \<^verbatim>\<open>error\<close>.
\<close>

datatype 'rd PutObjReader = NewPutObjReader 'rd

record ('st, 'rd) storeBackend = metaNames +
  Marshal :: "DataUsageInfo \<Rightarrow> error + 8 word list"
  NewReader :: "8 word list \<Rightarrow> int64 \<Rightarrow> string \<Rightarrow> string \<Rightarrow> int64 \<Rightarrow> error + 'rd"
  PutObject :: "'st \<Rightarrow> string \<Rightarrow> string \<Rightarrow> 'rd PutObjReader \<Rightarrow> error option \<times> 'st"

text \<open>
  Modelled from the spec: \<^verbatim>\<open>logger.LogIf\<close> is declared outside this file; it
  records an error and does nothing for \<^verbatim>\<open>nil\<close>.
\<close>

fun LogIf :: "error option \<Rightarrow> error list \<Rightarrow> error list" where
  "LogIf None log = log"
| "LogIf (Some e) log = log @ [e]"

text \<open>
  The state the loop works on: the object layer, the errors logged so far, and the
  calls of \<^verbatim>\<open>PutObject\<close> made so far (bucket, object and reader), in order.
\<close>

record ('st, 'rd) pipeline =
  objectLayer :: 'st
  logged :: "error list"
  putCalls :: "(string \<times> string \<times> 'rd PutObjReader) list"

text \<open>The body of the loop, lines 43 to 58, for one report received.\<close>

definition storeStep ::
  "('st, 'rd) storeBackend \<Rightarrow> DataUsageInfo \<Rightarrow> ('st, 'rd) pipeline \<Rightarrow> ('st, 'rd) pipeline" where
  "storeStep env dataUsageInfo s =
     (case Marshal env dataUsageInfo of
        Inl err \<Rightarrow> s\<lparr>logged := LogIf (Some err) (logged s)\<rparr>
      | Inr dataUsageJSON \<Rightarrow>
          (let size = (of_nat (length dataUsageJSON) :: int64)
           in case NewReader env dataUsageJSON size [] [] size of
                Inl err \<Rightarrow> s\<lparr>logged := LogIf (Some err) (logged s)\<rparr>
              | Inr r \<Rightarrow>
                  (case PutObject env (objectLayer s) (dataUsageBucket env) dataUsageObjName
                          (NewPutObjReader r) of
                     (err, objAPI') \<Rightarrow>
                       s\<lparr>objectLayer := objAPI',
                         putCalls := putCalls s @
                           [(dataUsageBucket env, dataUsageObjName, NewPutObjReader r)],
                         logged := (if \<not> isErrBucketNotFound err then LogIf err (logged s)
                                    else logged s)\<rparr>)))"

text \<open>
  The loop \<^verbatim>\<open>for dataUsageInfo := range dui\<close>: the channel is the list of the reports
  sent on it before it is closed.
\<close>

fun storeDataUsageInBackend ::
  "('st, 'rd) storeBackend \<Rightarrow> DataUsageInfo list \<Rightarrow> ('st, 'rd) pipeline \<Rightarrow> ('st, 'rd) pipeline" where
  "storeDataUsageInBackend env [] s = s"
| "storeDataUsageInBackend env (dataUsageInfo # dui) s =
     storeDataUsageInBackend env dui (storeStep env dataUsageInfo s)"

text \<open>
  The call of \<^verbatim>\<open>PutObject\<close> a report leads to, if it serialises: the bucket, the
  object and the reader.
\<close>

definition putRequest ::
  "('st, 'rd) storeBackend \<Rightarrow> DataUsageInfo \<Rightarrow> (string \<times> string \<times> 'rd PutObjReader) option" where
  "putRequest env dataUsageInfo =
     (case Marshal env dataUsageInfo of
        Inl err \<Rightarrow> None
      | Inr dataUsageJSON \<Rightarrow>
          (case NewReader env dataUsageJSON (of_nat (length dataUsageJSON)) [] []
                  (of_nat (length dataUsageJSON)) of
             Inl err \<Rightarrow> None
           | Inr r \<Rightarrow> Some (dataUsageBucket env, dataUsageObjName, NewPutObjReader r)))"

subsection \<open>Scenarios\<close>

text \<open>
  The scenario of the spec: in the bucket \<^verbatim>\<open>bucket\<close>, shard A holds
  \<^verbatim>\<open>bucket/x\<close> with 100 and \<^verbatim>\<open>bucket/y\<close> with 50, shard B holds \<^verbatim>\<open>bucket/x\<close>
  with 20, and the snapshot of shard C is not found. A cache is the flattened map of
  its shard, every loaded cache has a root for the bucket, and the names carry no
  directory marker, so decoding leaves them as they are.
\<close>

datatype shard = ShardA | ShardB | ShardC

fun scenario_load :: "shard \<Rightarrow> string \<Rightarrow> error + (string \<times> dataUsageEntry) list" where
  "scenario_load ShardA name =
     Inr [(''bucket/x'', \<lparr>dataUsageEntry.Size = 100\<rparr>), (''bucket/y'', \<lparr>dataUsageEntry.Size = 50\<rparr>)]"
| "scenario_load ShardB name = Inr [(''bucket/x'', \<lparr>dataUsageEntry.Size = 20\<rparr>)]"
| "scenario_load ShardC name = Inl ObjectNotFound"

definition scenario_ops :: "(shard, (string \<times> dataUsageEntry) list) dataUsageCacheOps" where
  "scenario_ops =
     \<lparr>cache_load = scenario_load,
      cache_find = (\<lambda>cache bucket. Some \<lparr>dataUsageEntry.Size = 170\<rparr>),
      cache_flattenChildrens = (\<lambda>cache root. cache),
      decodeDirObject = (\<lambda>object. object)\<rparr>"

definition scenario_layer :: "(shard, unit) ObjectLayer" where
  "scenario_layer =
     ErasureServerPools \<lparr>serverPools = [\<lparr>sets = [ShardA, ShardB]\<rparr>, \<lparr>sets = [ShardC]\<rparr>]\<rparr>"

text \<open>
  Two more states of the same three shards: every snapshot is corrupted, so that
  every load fails with a decode error; and every snapshot loads but none holds a
  root for the bucket.
\<close>

definition corrupted_ops :: "(shard, (string \<times> dataUsageEntry) list) dataUsageCacheOps" where
  "corrupted_ops =
     \<lparr>cache_load = (\<lambda>er name. Inl (OtherError ''decode'')),
      cache_find = (\<lambda>cache bucket. Some \<lparr>dataUsageEntry.Size = 170\<rparr>),
      cache_flattenChildrens = (\<lambda>cache root. cache),
      decodeDirObject = (\<lambda>object. object)\<rparr>"

definition unused_ops :: "(shard, (string \<times> dataUsageEntry) list) dataUsageCacheOps" where
  "unused_ops =
     \<lparr>cache_load = (\<lambda>er name. Inr []),
      cache_find = (\<lambda>cache bucket. None),
      cache_flattenChildrens = (\<lambda>cache root. cache),
      decodeDirObject = (\<lambda>object. object)\<rparr>"

text \<open>
  A backend for the report: the meta bucket is \<^verbatim>\<open>.minio.sys/buckets\<close>, the read of
  the report object gives \<open>read\<close> and that of any other object is not found, the
  decoder gives \<open>decoded\<close>, \<^verbatim>\<open>toObjectErr\<close> keeps the error it is given, and the
  replication target of \<^verbatim>\<open>b1\<close> is \<^verbatim>\<open>arn:b1\<close>, that of \<^verbatim>\<open>b2\<close> is \<^verbatim>\<open>arn:b2\<close>,
  and no other bucket has a replication configuration.
\<close>

definition scenario_config :: "string \<Rightarrow> error + Config" where
  "scenario_config bucket =
     (if bucket = ''b1'' then Inr \<lparr>RoleArn = ''arn:b1''\<rparr>
      else if bucket = ''b2'' then Inr \<lparr>RoleArn = ''arn:b2''\<rparr>
      else Inl (OtherError ''replication configuration not found''))"

definition scenario_backend :: "error + unit \<Rightarrow> error + DataUsageInfo \<Rightarrow> unit reportBackend" where
  "scenario_backend read decoded =
     \<lparr>minioMetaBucket = ''.minio.sys'', bucketMetaPrefix = ''buckets'',
      GetObjectNInfo = (\<lambda>bucket object.
        if bucket = ''.minio.sys/buckets'' \<and> object = ''.usage.json'' then read
        else Inl ObjectNotFound),
      Decode = (\<lambda>r. decoded),
      toObjectErr = (\<lambda>err bucket object. err),
      getReplicationConfig = scenario_config\<rparr>"

text \<open>
  Reports to decode. A usage entry with a size and a legacy replicated size;
  a report of an old version, with the sizes only; a report with the newer map only;
  a report whose buckets \<^verbatim>\<open>b1\<close> and \<^verbatim>\<open>b2\<close> both carry legacy counters, and the same
  report visited in the other order; a report whose bucket \<^verbatim>\<open>b1\<close> carries a legacy
  pending size and no other legacy counter; and a report with legacy counters on a
  bucket that has no replication configuration.
\<close>

definition legacyUsage :: "uint64 \<Rightarrow> uint64 \<Rightarrow> BucketUsageInfo" where
  "legacyUsage sz replicated =
     \<lparr>Size = sz, ReplicationPendingSizeV1 = 0, ReplicationFailedSizeV1 = 0,
      ReplicatedSizeV1 = replicated, ReplicationPendingCountV1 = 0,
      ReplicationFailedCountV1 = 0\<rparr>"

definition sizes_only_report :: DataUsageInfo where
  "sizes_only_report =
     \<lparr>ReplicationInfo = NilMap, BucketsUsage = NilMap,
      BucketSizes = GoMap [(''b1'', 10), (''b2'', 20)]\<rparr>"

definition usage_only_report :: DataUsageInfo where
  "usage_only_report =
     \<lparr>ReplicationInfo = NilMap,
      BucketsUsage = GoMap [(''b1'', legacyUsage 10 0), (''b2'', legacyUsage 20 0)],
      BucketSizes = NilMap\<rparr>"

definition two_legacy_report :: DataUsageInfo where
  "two_legacy_report =
     \<lparr>ReplicationInfo = NilMap,
      BucketsUsage = GoMap [(''b1'', legacyUsage 10 7), (''b2'', legacyUsage 20 9)],
      BucketSizes = GoMap [(''b1'', 10), (''b2'', 20)]\<rparr>"

definition two_legacy_report_reversed :: DataUsageInfo where
  "two_legacy_report_reversed =
     \<lparr>ReplicationInfo = NilMap,
      BucketsUsage = GoMap [(''b2'', legacyUsage 20 9), (''b1'', legacyUsage 10 7)],
      BucketSizes = GoMap [(''b1'', 10), (''b2'', 20)]\<rparr>"

definition pending_size_report :: DataUsageInfo where
  "pending_size_report =
     \<lparr>ReplicationInfo = NilMap,
      BucketsUsage = GoMap [(''b1'', (legacyUsage 10 0)\<lparr>ReplicationPendingSizeV1 := 5\<rparr>)],
      BucketSizes = GoMap [(''b1'', 10)]\<rparr>"

definition unconfigured_report :: DataUsageInfo where
  "unconfigured_report =
     \<lparr>ReplicationInfo = NilMap,
      BucketsUsage = GoMap [(''b1'', legacyUsage 10 7), (''b3'', legacyUsage 30 1)],
      BucketSizes = GoMap [(''b1'', 10), (''b3'', 30)]\<rparr>"

text \<open>
  A backend for the pipeline. The encoder refuses a report with exactly one bucket
  size and writes one zero byte per bucket size otherwise; the reader is the bytes,
  and no reader is made of none; the state of the object layer is the number of
  calls of \<^verbatim>\<open>PutObject\<close> it has received: the first finds no bucket, the second
  fails otherwise, and the later ones succeed.
\<close>

definition scenario_store :: "(nat, 8 word list) storeBackend" where
  "scenario_store =
     \<lparr>minioMetaBucket = ''.minio.sys'', bucketMetaPrefix = ''buckets'',
      Marshal = (\<lambda>dataUsageInfo.
        if len (BucketSizes dataUsageInfo) = 1 then Inl (OtherError ''unsupported value'')
        else Inr (replicate (len (BucketSizes dataUsageInfo)) 0)),
      NewReader = (\<lambda>bytes size md5Hex sha256Hex actualSize.
        if size = 0 then Inl (OtherError ''empty input'') else Inr bytes),
      PutObject = (\<lambda>calls bucket object reader.
        (if calls = 0 then Some BucketNotFound
         else if calls = 1 then Some (OtherError ''write quorum'')
         else None, Suc calls))\<rparr>"

definition scenario_start :: "(nat, 8 word list) pipeline" where
  "scenario_start = \<lparr>objectLayer = 0, logged = [], putCalls = []\<rparr>"

section \<open>Properties\<close>

subsection \<open>Adding contributions\<close>

lemma accumulate_append: "accumulate (cs @ ds) m = accumulate ds (accumulate cs m)"
  by (simp add: accumulate_def)

lemma filter_key_absent:
  "p \<notin> fst ` set cs \<Longrightarrow> filter (\<lambda>kv. fst kv = p) cs = []"
  by (induction cs) auto

lemma accumulate_lookup:
  "map_of (accumulate cs m) p =
     (if p \<in> fst ` set cs
      then Some ((case map_of m p of None \<Rightarrow> 0 | Some v \<Rightarrow> v) +
                 sum_list (map snd (filter (\<lambda>kv. fst kv = p) cs)))
      else map_of m p)"
proof (induction cs arbitrary: m)
  case Nil
  show ?case by (simp add: accumulate_def)
next
  case (Cons c cs)
  let ?m' = "AList.update (fst c) ((case map_of m (fst c) of None \<Rightarrow> 0 | Some v \<Rightarrow> v) + snd c) m"
  have step: "accumulate (c # cs) m = accumulate cs ?m'"
    by (simp add: accumulate_def)
  show ?case
    unfolding step Cons.IH
    by (auto simp: update_conv' add.assoc filter_key_absent split: option.splits)
qed

lemma fold_addPrefixUsage:
  "fold (addPrefixUsage ops bucket) xs m =
   accumulate (map (\<lambda>kv. (decodeDirObject ops (TrimPrefix (fst kv) (bucket @ slashSeparator)),
                          dataUsageEntry.Size (snd kv))) xs) m"
  by (induction xs arbitrary: m) (simp_all add: accumulate_def addPrefixUsage_def Let_def)

lemma setsLoop_fst:
  "fst (setsLoop ops bucket ers (m, reads)) =
   accumulate (concat (map (shardContribution ops bucket) ers)) m"
proof (induction ers arbitrary: m reads)
  case Nil
  show ?case by (simp add: accumulate_def)
next
  case (Cons er ers)
  show ?case
    by (simp add: Let_def shardContribution_def Cons.IH accumulate_append fold_addPrefixUsage
        split: sum.split option.split)
      (simp add: accumulate_def)
qed

lemma setsLoop_snd:
  "snd (setsLoop ops bucket ers (m, reads)) =
   reads @ map (\<lambda>er. (er, bucket @ slashSeparator @ dataUsageCacheName)) ers"
  by (induction ers arbitrary: m reads)
    (simp_all add: Let_def split: sum.split option.split)

lemma setsLoop_eq:
  "setsLoop ops bucket ers (m, reads) =
   (accumulate (concat (map (shardContribution ops bucket) ers)) m,
    reads @ map (\<lambda>er. (er, bucket @ slashSeparator @ dataUsageCacheName)) ers)"
  by (rule prod_eqI) (simp_all add: setsLoop_fst setsLoop_snd)

lemma poolsLoop_eq:
  "poolsLoop ops bucket pools (m, reads) =
   (accumulate (concat (map (shardContribution ops bucket) (concat (map sets pools)))) m,
    reads @ map (\<lambda>er. (er, bucket @ slashSeparator @ dataUsageCacheName)) (concat (map sets pools)))"
proof (induction pools arbitrary: m reads)
  case Nil
  show ?case by (simp add: accumulate_def)
next
  case (Cons pool pools)
  show ?case by (simp add: setsLoop_eq Cons.IH accumulate_append)
qed

lemma loadPrefixUsageFromBackend_eq:
  "loadPrefixUsageFromBackend ops objAPI bucket =
   \<lparr>usage = GoMap (accumulate (concat (map (shardContribution ops bucket) (shardsOf objAPI))) []),
    failure = None,
    snapshotReads =
      map (\<lambda>er. (er, bucket @ slashSeparator @ dataUsageCacheName)) (shardsOf objAPI)\<rparr>"
  by (cases objAPI) (simp_all add: loadPrefixUsageFromBackend_def poolsLoop_eq accumulate_def)

lemma lookup_accumulate_Nil: "map_of (accumulate cs []) p = prefixTotal cs p"
  by (simp add: accumulate_lookup prefixTotal_def)

lemma shardsOf_keepShards: "shardsOf (keepShards ok objAPI) = filter ok (shardsOf objAPI)"
  by (cases objAPI) (simp_all add: filter_concat comp_def)

lemma shardContribution_failed:
  "\<not> snapshotLoads ops bucket er \<Longrightarrow> shardContribution ops bucket er = []"
  by (simp add: snapshotLoads_def shardContribution_def split: sum.splits)

lemma contributions_filter_loads:
  "concat (map (shardContribution ops bucket) (filter (snapshotLoads ops bucket) ers)) =
   concat (map (shardContribution ops bucket) ers)"
  by (induction ers) (simp_all add: shardContribution_failed)

lemma unat_sum_list:
  "sum_list (map unat ws) < 2 ^ 64 \<Longrightarrow> unat (sum_list (ws :: uint64 list)) = sum_list (map unat ws)"
proof (induction ws)
  case Nil
  show ?case by simp
next
  case (Cons w ws)
  then have "unat (sum_list ws) = sum_list (map unat ws)" by simp
  with Cons.prems show ?case by (simp add: unat_word_ariths)
qed

lemma scenario_result:
  "loadPrefixUsageFromBackend scenario_ops scenario_layer ''bucket'' =
     \<lparr>usage = GoMap [(''x'', 120), (''y'', 50)], failure = None,
      snapshotReads = [(ShardA, ''bucket/.usage-cache.bin''), (ShardB, ''bucket/.usage-cache.bin''),
        (ShardC, ''bucket/.usage-cache.bin'')]\<rparr>"
  by (simp add: loadPrefixUsageFromBackend_def scenario_layer_def scenario_ops_def
      addPrefixUsage_def TrimPrefix_def slashSeparator_def dataUsageCacheName_def Let_def)

subsection \<open>Claims on loadPrefixUsageFromBackend\<close>

text \<open>
  C1. For every object layer, bucket and state of the shards, the map returned by
  \<open>loadPrefixUsageFromBackend\<close> holds for each prefix the sum, over the shards whose
  snapshot loads and holds a root for the bucket, of the sizes of the flattened entries
  whose identifier, with the bucket prefix stripped and the directory marker decoded,
  is that prefix; a prefix no such entry maps to is not in the map. The sum is that of
  \<^verbatim>\<open>uint64\<close>; when the total of the sizes, as natural numbers, is below \<open>2 ^ 64\<close> it
  is that total. In the scenario of the spec (shard A with \<^verbatim>\<open>bucket/x\<close> at 100 and
  \<^verbatim>\<open>bucket/y\<close> at 50, shard B with \<^verbatim>\<open>bucket/x\<close> at 20, shard C without a snapshot)
  the map is \<^verbatim>\<open>{"x": 120, "y": 50}\<close>.
\<close>

theorem prefix_usage_is_sum_over_shards:
  "(\<forall>p. lookup (usage (loadPrefixUsageFromBackend ops objAPI bucket)) p =
        prefixTotal (concat (map (shardContribution ops bucket) (shardsOf objAPI))) p)
   \<and> (\<forall>p. sum_list (map (\<lambda>kv. unat (snd kv)) (filter (\<lambda>kv. fst kv = p)
              (concat (map (shardContribution ops bucket) (shardsOf objAPI))))) < 2 ^ 64 \<longrightarrow>
        map_option unat (lookup (usage (loadPrefixUsageFromBackend ops objAPI bucket)) p) =
          (if p \<in> fst ` set (concat (map (shardContribution ops bucket) (shardsOf objAPI)))
           then Some (sum_list (map (\<lambda>kv. unat (snd kv)) (filter (\<lambda>kv. fst kv = p)
                  (concat (map (shardContribution ops bucket) (shardsOf objAPI))))))
           else None))
   \<and> failure (loadPrefixUsageFromBackend ops objAPI bucket) = None
   \<and> usage (loadPrefixUsageFromBackend scenario_ops scenario_layer ''bucket'') =
       GoMap [(''x'', 120), (''y'', 50)]"
proof (intro conjI allI impI)
  fix p
  let ?cs = "concat (map (shardContribution ops bucket) (shardsOf objAPI))"
  show total: "lookup (usage (loadPrefixUsageFromBackend ops objAPI bucket)) p = prefixTotal ?cs p"
    by (simp add: loadPrefixUsageFromBackend_eq lookup_def lookup_accumulate_Nil)
  assume "sum_list (map (\<lambda>kv. unat (snd kv)) (filter (\<lambda>kv. fst kv = p) ?cs)) < 2 ^ 64"
  then have "unat (sum_list (map snd (filter (\<lambda>kv. fst kv = p) ?cs))) =
      sum_list (map (\<lambda>kv. unat (snd kv)) (filter (\<lambda>kv. fst kv = p) ?cs))"
    using unat_sum_list [of "map snd (filter (\<lambda>kv. fst kv = p) ?cs)"] by (simp add: comp_def)
  then show "map_option unat (lookup (usage (loadPrefixUsageFromBackend ops objAPI bucket)) p) =
      (if p \<in> fst ` set ?cs
       then Some (sum_list (map (\<lambda>kv. unat (snd kv)) (filter (\<lambda>kv. fst kv = p) ?cs)))
       else None)"
    unfolding total by (simp add: prefixTotal_def)
next
  show "failure (loadPrefixUsageFromBackend ops objAPI bucket) = None"
    by (simp add: loadPrefixUsageFromBackend_eq)
  show "usage (loadPrefixUsageFromBackend scenario_ops scenario_layer ''bucket'') =
       GoMap [(''x'', 120), (''y'', 50)]"
    by (simp add: scenario_result)
qed

text \<open>
  The theorem of C1 at the scenario of the spec: the value of \<^verbatim>\<open>x\<close> is 120, the exact
  sum of 100 and 20, that of \<^verbatim>\<open>y\<close> is 50, and \<^verbatim>\<open>z\<close> is not in the map.
\<close>

theorem prefix_usage_is_sum_over_shards_witness:
  "lookup (usage (loadPrefixUsageFromBackend scenario_ops scenario_layer ''bucket'')) ''x'' = Some 120
   \<and> map_option unat
       (lookup (usage (loadPrefixUsageFromBackend scenario_ops scenario_layer ''bucket'')) ''x'') =
       Some (100 + 20)
   \<and> lookup (usage (loadPrefixUsageFromBackend scenario_ops scenario_layer ''bucket'')) ''y'' = Some 50
   \<and> lookup (usage (loadPrefixUsageFromBackend scenario_ops scenario_layer ''bucket'')) ''z'' = None"
proof -
  have cs: "concat (map (shardContribution scenario_ops ''bucket'') (shardsOf scenario_layer)) =
      [(''x'', 100), (''y'', 50), (''x'', 20)]"
    by (simp add: shardContribution_def scenario_layer_def scenario_ops_def TrimPrefix_def
        slashSeparator_def)
  have small: "sum_list (map (\<lambda>kv. unat (snd kv)) (filter (\<lambda>kv. fst kv = ''x'')
      [(''x'', 100 :: uint64), (''y'', 50), (''x'', 20)])) < 2 ^ 64"
    by simp
  from prefix_usage_is_sum_over_shards [of scenario_ops scenario_layer "''bucket''"]
  have all: "\<forall>p. lookup (usage (loadPrefixUsageFromBackend scenario_ops scenario_layer ''bucket'')) p =
        prefixTotal [(''x'', 100), (''y'', 50), (''x'', 20)] p"
    and exact: "\<forall>p. sum_list (map (\<lambda>kv. unat (snd kv)) (filter (\<lambda>kv. fst kv = p)
              [(''x'', 100 :: uint64), (''y'', 50), (''x'', 20)])) < 2 ^ 64 \<longrightarrow>
        map_option unat (lookup (usage (loadPrefixUsageFromBackend scenario_ops scenario_layer ''bucket'')) p) =
          (if p \<in> fst ` set [(''x'', 100 :: uint64), (''y'', 50), (''x'', 20)]
           then Some (sum_list (map (\<lambda>kv. unat (snd kv)) (filter (\<lambda>kv. fst kv = p)
                  [(''x'', 100 :: uint64), (''y'', 50), (''x'', 20)])))
           else None)"
    unfolding cs by blast+
  from exact small have
    "map_option unat (lookup (usage (loadPrefixUsageFromBackend scenario_ops scenario_layer ''bucket'')) ''x'') =
      Some (100 + 20)"
    by simp
  then show ?thesis by (simp add: all prefixTotal_def)
qed

text \<open>
  C7. For every object layer that is not the erasure-coded implementation,
  \<open>loadPrefixUsageFromBackend\<close> returns a map that is empty and not \<^verbatim>\<open>nil\<close>, and no
  error, and reads no snapshot.
\<close>

theorem non_sharded_layer_gives_empty_map:
  "loadPrefixUsageFromBackend ops (OtherObjectLayer other) bucket =
     \<lparr>usage = GoMap [], failure = None, snapshotReads = []\<rparr>
   \<and> usage (loadPrefixUsageFromBackend ops (OtherObjectLayer other) bucket) \<noteq> NilMap
   \<and> len (usage (loadPrefixUsageFromBackend ops (OtherObjectLayer other) bucket)) = 0"
  by (simp add: loadPrefixUsageFromBackend_def len_def)

text \<open>
  C6. A shard whose snapshot load fails, for whatever reason, contributes nothing and
  stops nothing: no error is returned, the snapshot of every shard is read, each once
  and in order, and the map is the one computed on the object layer with the failing
  shards taken out, that is, for each prefix the sum over the shards that remain. With
  \<open>K\<close> shards of which \<open>M\<close> fail to load, \<open>K - M\<close> remain.
\<close>

theorem failed_shards_are_skipped:
  "failure (loadPrefixUsageFromBackend ops objAPI bucket) = None
   \<and> snapshotReads (loadPrefixUsageFromBackend ops objAPI bucket) =
       map (\<lambda>er. (er, bucket @ slashSeparator @ dataUsageCacheName)) (shardsOf objAPI)
   \<and> usage (loadPrefixUsageFromBackend ops objAPI bucket) =
       usage (loadPrefixUsageFromBackend ops (keepShards (snapshotLoads ops bucket) objAPI) bucket)
   \<and> (\<forall>p. lookup (usage (loadPrefixUsageFromBackend ops objAPI bucket)) p =
        prefixTotal (concat (map (shardContribution ops bucket)
          (filter (snapshotLoads ops bucket) (shardsOf objAPI)))) p)
   \<and> length (filter (snapshotLoads ops bucket) (shardsOf objAPI)) =
       length (shardsOf objAPI) -
       length (filter (\<lambda>er. \<not> snapshotLoads ops bucket er) (shardsOf objAPI))"
proof (intro conjI allI)
  show "length (filter (snapshotLoads ops bucket) (shardsOf objAPI)) =
       length (shardsOf objAPI) -
       length (filter (\<lambda>er. \<not> snapshotLoads ops bucket er) (shardsOf objAPI))"
    using sum_length_filter_compl [of "snapshotLoads ops bucket" "shardsOf objAPI"] by simp
qed (simp_all add: loadPrefixUsageFromBackend_eq shardsOf_keepShards contributions_filter_loads
      lookup_def lookup_accumulate_Nil)

text \<open>
  The theorem of C6 at the scenario of the spec, where shard C has no snapshot: the
  map is that of the layer without shard C, and two of the three shards remain.
\<close>

theorem failed_shards_are_skipped_witness:
  "usage (loadPrefixUsageFromBackend scenario_ops scenario_layer ''bucket'') =
   usage (loadPrefixUsageFromBackend scenario_ops
     (ErasureServerPools \<lparr>serverPools = [\<lparr>sets = [ShardA, ShardB]\<rparr>, \<lparr>sets = []\<rparr>]\<rparr>
        :: (shard, unit) ObjectLayer) ''bucket'')
   \<and> length (filter (snapshotLoads scenario_ops ''bucket'') (shardsOf scenario_layer)) = 2"
proof -
  have loads: "snapshotLoads scenario_ops ''bucket'' ShardA"
    "snapshotLoads scenario_ops ''bucket'' ShardB"
    "\<not> snapshotLoads scenario_ops ''bucket'' ShardC"
    by (simp_all add: snapshotLoads_def scenario_ops_def)
  have kept: "keepShards (snapshotLoads scenario_ops ''bucket'') scenario_layer =
      ErasureServerPools \<lparr>serverPools = [\<lparr>sets = [ShardA, ShardB]\<rparr>, \<lparr>sets = []\<rparr>]\<rparr>"
    by (simp add: scenario_layer_def loads)
  have two: "length (filter (snapshotLoads scenario_ops ''bucket'') (shardsOf scenario_layer)) = 2"
    by (simp add: scenario_layer_def loads)
  from failed_shards_are_skipped [of scenario_ops scenario_layer "''bucket''"]
  have "usage (loadPrefixUsageFromBackend scenario_ops scenario_layer ''bucket'') =
      usage (loadPrefixUsageFromBackend scenario_ops
        (keepShards (snapshotLoads scenario_ops ''bucket'') scenario_layer) ''bucket'')"
    by blast
  with kept two show ?thesis by simp
qed

lemma contributions_none:
  "(\<forall>er \<in> set ers. shardContribution ops bucket er = []) \<Longrightarrow>
   concat (map (shardContribution ops bucket) ers) = []"
  by (induction ers) simp_all

lemma usage_when_nothing_contributes:
  "(\<forall>er \<in> set (shardsOf objAPI). shardContribution ops bucket er = []) \<Longrightarrow>
   usage (loadPrefixUsageFromBackend ops objAPI bucket) = GoMap []"
  by (simp add: loadPrefixUsageFromBackend_eq contributions_none) (simp add: accumulate_def)

text \<open>
  C10. For every object layer, bucket and state of the shards,
  \<open>loadPrefixUsageFromBackend\<close> returns the error \<^verbatim>\<open>nil\<close>. When the snapshot of every
  shard fails to load, the map is empty, and the map and the error are those returned
  when no shard holds any usage for the bucket: a caller cannot tell the two apart.
\<close>

theorem error_result_is_always_nil:
  "failure (loadPrefixUsageFromBackend ops objAPI bucket) = None
   \<and> ((\<forall>er \<in> set (shardsOf objAPI). \<not> snapshotLoads ops bucket er) \<longrightarrow>
        usage (loadPrefixUsageFromBackend ops objAPI bucket) = GoMap [])
   \<and> ((\<forall>er \<in> set (shardsOf objAPI). \<not> snapshotLoads ops bucket er) \<and>
       (\<forall>er \<in> set (shardsOf objAPI). shardContribution ops' bucket er = []) \<longrightarrow>
        usage (loadPrefixUsageFromBackend ops objAPI bucket) =
          usage (loadPrefixUsageFromBackend ops' objAPI bucket) \<and>
        failure (loadPrefixUsageFromBackend ops objAPI bucket) =
          failure (loadPrefixUsageFromBackend ops' objAPI bucket))"
proof (intro conjI impI)
  show "failure (loadPrefixUsageFromBackend ops objAPI bucket) = None"
    by (simp add: loadPrefixUsageFromBackend_eq)
next
  assume "\<forall>er \<in> set (shardsOf objAPI). \<not> snapshotLoads ops bucket er"
  then show "usage (loadPrefixUsageFromBackend ops objAPI bucket) = GoMap []"
    by (intro usage_when_nothing_contributes) (simp add: shardContribution_failed)
next
  assume h: "(\<forall>er \<in> set (shardsOf objAPI). \<not> snapshotLoads ops bucket er) \<and>
       (\<forall>er \<in> set (shardsOf objAPI). shardContribution ops' bucket er = [])"
  then have "usage (loadPrefixUsageFromBackend ops objAPI bucket) = GoMap []"
    by (intro usage_when_nothing_contributes) (simp add: shardContribution_failed)
  moreover from h have "usage (loadPrefixUsageFromBackend ops' objAPI bucket) = GoMap []"
    by (intro usage_when_nothing_contributes) simp
  ultimately show "usage (loadPrefixUsageFromBackend ops objAPI bucket) =
      usage (loadPrefixUsageFromBackend ops' objAPI bucket)"
    by simp
next
  show "failure (loadPrefixUsageFromBackend ops objAPI bucket) =
      failure (loadPrefixUsageFromBackend ops' objAPI bucket)"
    by (simp add: loadPrefixUsageFromBackend_eq)
qed

text \<open>
  The theorem of C10 on three shards: with every snapshot corrupted, the result is
  that of three shards that hold nothing for the bucket.
\<close>

theorem error_result_is_always_nil_witness:
  "failure (loadPrefixUsageFromBackend corrupted_ops scenario_layer ''bucket'') = None
   \<and> usage (loadPrefixUsageFromBackend corrupted_ops scenario_layer ''bucket'') = GoMap []
   \<and> usage (loadPrefixUsageFromBackend corrupted_ops scenario_layer ''bucket'') =
       usage (loadPrefixUsageFromBackend unused_ops scenario_layer ''bucket'')
   \<and> failure (loadPrefixUsageFromBackend corrupted_ops scenario_layer ''bucket'') =
       failure (loadPrefixUsageFromBackend unused_ops scenario_layer ''bucket'')"
proof -
  have fails: "\<forall>er \<in> set (shardsOf scenario_layer). \<not> snapshotLoads corrupted_ops ''bucket'' er"
    by (simp add: snapshotLoads_def corrupted_ops_def)
  have unused: "\<forall>er \<in> set (shardsOf scenario_layer). shardContribution unused_ops ''bucket'' er = []"
    by (simp add: shardContribution_def unused_ops_def)
  from error_result_is_always_nil [of corrupted_ops scenario_layer "''bucket''" unused_ops]
    fails unused
  show ?thesis by blast
qed

subsection \<open>Claims on loadDataUsageFromBackend\<close>

lemma update_fresh: "k \<notin> fst ` set al \<Longrightarrow> AList.update k v al = al @ [(k, v)]"
  by (induction al) auto

lemma fold_update_distinct:
  "distinct (map fst xs) \<Longrightarrow> fst ` set xs \<inter> fst ` set acc = {} \<Longrightarrow>
   fold (\<lambda>(k, v) m. AList.update k (f v) m) xs acc = acc @ map (\<lambda>(k, v). (k, f v)) xs"
proof (induction xs arbitrary: acc)
  case Nil
  show ?case by simp
next
  case (Cons x xs)
  obtain k v where x: "x = (k, v)" by (cases x)
  from Cons.prems x have fresh: "k \<notin> fst ` set acc" by auto
  from Cons.prems x have "fst ` set xs \<inter> fst ` set (acc @ [(k, f v)]) = {}" by auto
  with Cons.prems have
    "fold (\<lambda>(k, v) m. AList.update k (f v) m) xs (acc @ [(k, f v)]) =
     (acc @ [(k, f v)]) @ map (\<lambda>(k, v). (k, f v)) xs"
    by (intro Cons.IH) simp_all
  with fresh show ?case by (simp add: x update_fresh)
qed

lemma map_of_map_value:
  "map_of (map (\<lambda>(k, v). (k, f v)) xs) b = map_option f (map_of xs b)"
  by (induction xs) auto

lemma forwardCompat_synth:
  assumes "wf_gomap (BucketSizes d)" and "len (BucketsUsage d) = 0"
  shows "entries (BucketsUsage (forwardCompat d)) =
     map (\<lambda>(bucket, size). (bucket,
        \<lparr>Size = size, ReplicationPendingSizeV1 = 0, ReplicationFailedSizeV1 = 0,
         ReplicatedSizeV1 = 0, ReplicationPendingCountV1 = 0, ReplicationFailedCountV1 = 0\<rparr>))
       (entries (BucketSizes d))"
  using assms fold_update_distinct [of "entries (BucketSizes d)" "[]"
      "\<lambda>size. \<lparr>Size = size, ReplicationPendingSizeV1 = 0, ReplicationFailedSizeV1 = 0,
         ReplicatedSizeV1 = 0, ReplicationPendingCountV1 = 0, ReplicationFailedCountV1 = 0\<rparr>"]
  by (simp add: forwardCompat_def wf_gomap_def)

lemma backwardCompat_synth:
  assumes "wf_gomap (BucketsUsage d)" and "len (BucketSizes d) = 0"
  shows "entries (BucketSizes (backwardCompat d)) =
     map (\<lambda>(bucket, bui). (bucket, Size bui)) (entries (BucketsUsage d))"
  using assms fold_update_distinct [of "entries (BucketsUsage d)" "[]" Size]
  by (simp add: backwardCompat_def wf_gomap_def)

lemma forwardCompat_other:
  "BucketSizes (forwardCompat d) = BucketSizes d"
  "ReplicationInfo (forwardCompat d) = ReplicationInfo d"
  "len (BucketsUsage d) \<noteq> 0 \<Longrightarrow> forwardCompat d = d"
  by (simp_all add: forwardCompat_def)

lemma backwardCompat_other:
  "BucketsUsage (backwardCompat d) = BucketsUsage d"
  "ReplicationInfo (backwardCompat d) = ReplicationInfo d"
  "len (BucketSizes d) \<noteq> 0 \<Longrightarrow> backwardCompat d = d"
  by (simp_all add: backwardCompat_def)

lemma replicationLoop_frame:
  "replicationLoop env xs d = Inr d' \<Longrightarrow>
   BucketsUsage d' = BucketsUsage d \<and> BucketSizes d' = BucketSizes d"
  by (induction env xs d rule: replicationLoop.induct)
    (auto split: if_splits sum.splits)

lemma load_decoded:
  assumes "GetObjectNInfo env (dataUsageBucket env) dataUsageObjName = Inr r"
    and "Decode env r = Inr decoded"
  shows "loadDataUsageFromBackend env =
    (case replicationLoop env (entries (BucketsUsage (backwardCompat (forwardCompat decoded))))
            (backwardCompat (forwardCompat decoded)) of
       Inl err \<Rightarrow> (zeroDataUsageInfo, Some err)
     | Inr migrated \<Rightarrow> (migrated, None))"
  using assms by (simp add: loadDataUsageFromBackend_def Let_def)

lemma load_success_maps:
  assumes "GetObjectNInfo env (dataUsageBucket env) dataUsageObjName = Inr r"
    and "Decode env r = Inr decoded"
    and "loadDataUsageFromBackend env = (info, None)"
  shows "BucketsUsage info = BucketsUsage (forwardCompat decoded)"
    and "BucketSizes info = BucketSizes (backwardCompat (forwardCompat decoded))"
  using assms(3) unfolding load_decoded [OF assms(1,2)]
  by (auto split: sum.splits simp: backwardCompat_other dest: replicationLoop_frame)

text \<open>
  C3. After a successful load of a report that was read and decoded: when the newer
  map \<^verbatim>\<open>BucketsUsage\<close> of the decoded report was empty, the one returned has an entry
  for exactly the buckets of the older map \<^verbatim>\<open>BucketSizes\<close>, each with the size of
  its bucket and every other field zero; when the older map was empty, the one
  returned holds for exactly the buckets of the newer map the size field of their
  entry; in both cases the two maps returned agree on the size of every bucket. A map
  that was not empty is returned as decoded. The decoded maps are Go maps: no key
  occurs twice.
\<close>

theorem compat_maps_are_synthesized:
  assumes "GetObjectNInfo env (dataUsageBucket env) dataUsageObjName = Inr r"
    and "Decode env r = Inr decoded"
    and "loadDataUsageFromBackend env = (info, None)"
    and "wf_gomap (BucketSizes decoded)"
    and "wf_gomap (BucketsUsage decoded)"
  shows "(len (BucketsUsage decoded) = 0 \<longrightarrow>
            (\<forall>b. lookup (BucketsUsage info) b =
               map_option (\<lambda>size. \<lparr>Size = size, ReplicationPendingSizeV1 = 0,
                   ReplicationFailedSizeV1 = 0, ReplicatedSizeV1 = 0,
                   ReplicationPendingCountV1 = 0, ReplicationFailedCountV1 = 0\<rparr>)
                 (lookup (BucketSizes decoded) b)) \<and>
            len (BucketsUsage info) = len (BucketSizes decoded))
       \<and> (len (BucketSizes decoded) = 0 \<longrightarrow>
            (\<forall>b. lookup (BucketSizes info) b = map_option Size (lookup (BucketsUsage info) b)) \<and>
            len (BucketSizes info) = len (BucketsUsage info))
       \<and> (len (BucketsUsage decoded) = 0 \<or> len (BucketSizes decoded) = 0 \<longrightarrow>
            (\<forall>b. map_option Size (lookup (BucketsUsage info) b) = lookup (BucketSizes info) b))
       \<and> (len (BucketsUsage decoded) \<noteq> 0 \<longrightarrow> BucketsUsage info = BucketsUsage decoded)
       \<and> (len (BucketSizes decoded) \<noteq> 0 \<longrightarrow> BucketSizes info = BucketSizes decoded)"
proof -
  note maps = load_success_maps [OF assms(1,2,3)]
  have wf_fwd: "wf_gomap (BucketsUsage (forwardCompat decoded))"
  proof (cases "len (BucketsUsage decoded) = 0")
    case True
    with assms(4) show ?thesis
      by (simp add: wf_gomap_def forwardCompat_synth comp_def case_prod_unfold)
  next
    case False
    with assms(5) show ?thesis by (simp add: forwardCompat_other)
  qed
  have newer: "lookup (BucketsUsage info) b =
      map_option (\<lambda>size. \<lparr>Size = size, ReplicationPendingSizeV1 = 0,
          ReplicationFailedSizeV1 = 0, ReplicatedSizeV1 = 0,
          ReplicationPendingCountV1 = 0, ReplicationFailedCountV1 = 0\<rparr>)
        (lookup (BucketSizes decoded) b)"
    and newer_len: "len (BucketsUsage info) = len (BucketSizes decoded)"
    if "len (BucketsUsage decoded) = 0" for b
    using that assms(4) by (simp_all add: maps lookup_def len_def forwardCompat_synth map_of_map_value)
  have older: "lookup (BucketSizes info) b = map_option Size (lookup (BucketsUsage info) b)"
    and older_len: "len (BucketSizes info) = len (BucketsUsage info)"
    if "len (BucketSizes decoded) = 0" for b
    using that wf_fwd
    by (simp_all add: maps lookup_def len_def backwardCompat_synth forwardCompat_other
        map_of_map_value)
  have agree: "map_option Size (lookup (BucketsUsage info) b) = lookup (BucketSizes info) b"
    if "len (BucketsUsage decoded) = 0 \<or> len (BucketSizes decoded) = 0" for b
  proof (cases "len (BucketSizes decoded) = 0")
    case True
    then show ?thesis by (simp add: older)
  next
    case False
    with that have empty: "len (BucketsUsage decoded) = 0" by simp
    from False have "BucketSizes info = BucketSizes decoded"
      by (simp add: maps backwardCompat_other forwardCompat_other)
    then show ?thesis
      by (simp add: newer [OF empty] option.map_comp comp_def option.map_ident)
  qed
  have keep1: "BucketsUsage info = BucketsUsage decoded" if "len (BucketsUsage decoded) \<noteq> 0"
    using that by (simp add: maps forwardCompat_other)
  have keep2: "BucketSizes info = BucketSizes decoded" if "len (BucketSizes decoded) \<noteq> 0"
    using that by (simp add: maps backwardCompat_other forwardCompat_other)
  from newer newer_len older older_len agree keep1 keep2 show ?thesis by blast
qed

lemma scenario_names:
  "dataUsageBucket (scenario_backend read decoded) = ''.minio.sys/buckets''"
  "GetObjectNInfo (scenario_backend read decoded) ''.minio.sys/buckets'' dataUsageObjName = read"
  "Decode (scenario_backend read decoded) r = decoded"
  "toObjectErr (scenario_backend read decoded) e b ob = e"
  "getReplicationConfig (scenario_backend read decoded) = scenario_config"
  by (simp_all add: scenario_backend_def dataUsageBucket_def SlashSeparator_def
      dataUsageObjName_def)

lemma load_sizes_only:
  "loadDataUsageFromBackend (scenario_backend (Inr ()) (Inr sizes_only_report)) =
     (\<lparr>ReplicationInfo = NilMap,
       BucketsUsage = GoMap [(''b1'', legacyUsage 10 0), (''b2'', legacyUsage 20 0)],
       BucketSizes = GoMap [(''b1'', 10), (''b2'', 20)]\<rparr>, None)"
  by (simp add: loadDataUsageFromBackend_def scenario_names sizes_only_report_def
      forwardCompat_def backwardCompat_def len_def legacyUsage_def legacyCountersSet_def)

lemma load_usage_only:
  "loadDataUsageFromBackend (scenario_backend (Inr ()) (Inr usage_only_report)) =
     (\<lparr>ReplicationInfo = NilMap,
       BucketsUsage = GoMap [(''b1'', legacyUsage 10 0), (''b2'', legacyUsage 20 0)],
       BucketSizes = GoMap [(''b1'', 10), (''b2'', 20)]\<rparr>, None)"
  by (simp add: loadDataUsageFromBackend_def scenario_names usage_only_report_def
      forwardCompat_def backwardCompat_def len_def legacyUsage_def legacyCountersSet_def)

text \<open>
  The theorem of C3 at a report with the older map only, and at one with the newer
  map only, both for the buckets \<^verbatim>\<open>b1\<close> of size 10 and \<^verbatim>\<open>b2\<close> of size 20.
\<close>

theorem compat_maps_are_synthesized_witness:
  "lookup (BucketsUsage (fst (loadDataUsageFromBackend
      (scenario_backend (Inr ()) (Inr sizes_only_report))))) ''b1'' =
     Some \<lparr>Size = 10, ReplicationPendingSizeV1 = 0, ReplicationFailedSizeV1 = 0,
           ReplicatedSizeV1 = 0, ReplicationPendingCountV1 = 0, ReplicationFailedCountV1 = 0\<rparr>
   \<and> len (BucketsUsage (fst (loadDataUsageFromBackend
      (scenario_backend (Inr ()) (Inr sizes_only_report))))) = 2
   \<and> lookup (BucketSizes (fst (loadDataUsageFromBackend
      (scenario_backend (Inr ()) (Inr usage_only_report))))) ''b2'' = Some 20
   \<and> len (BucketSizes (fst (loadDataUsageFromBackend
      (scenario_backend (Inr ()) (Inr usage_only_report))))) = 2"
proof -
  let ?env1 = "scenario_backend (Inr ()) (Inr sizes_only_report)"
  let ?env2 = "scenario_backend (Inr ()) (Inr usage_only_report)"
  let ?info = "\<lparr>ReplicationInfo = NilMap,
       BucketsUsage = GoMap [(''b1'', legacyUsage 10 0), (''b2'', legacyUsage 20 0)],
       BucketSizes = GoMap [(''b1'', 10), (''b2'', 20)]\<rparr>"
  have read1: "GetObjectNInfo ?env1 (dataUsageBucket ?env1) dataUsageObjName = Inr ()"
    and read2: "GetObjectNInfo ?env2 (dataUsageBucket ?env2) dataUsageObjName = Inr ()"
    by (simp_all add: scenario_names)
  have dec1: "Decode ?env1 () = Inr sizes_only_report"
    and dec2: "Decode ?env2 () = Inr usage_only_report"
    by (simp_all add: scenario_names)
  have wf1: "wf_gomap (BucketSizes sizes_only_report)" "wf_gomap (BucketsUsage sizes_only_report)"
    and wf2: "wf_gomap (BucketSizes usage_only_report)" "wf_gomap (BucketsUsage usage_only_report)"
    by (simp_all add: wf_gomap_def sizes_only_report_def usage_only_report_def)
  have empty1: "len (BucketsUsage sizes_only_report) = 0"
    and empty2: "len (BucketSizes usage_only_report) = 0"
    by (simp_all add: len_def sizes_only_report_def usage_only_report_def)
  from compat_maps_are_synthesized [OF read1 dec1 load_sizes_only wf1] empty1
  have "lookup (BucketsUsage ?info) ''b1'' =
      map_option (\<lambda>size. \<lparr>Size = size, ReplicationPendingSizeV1 = 0,
          ReplicationFailedSizeV1 = 0, ReplicatedSizeV1 = 0,
          ReplicationPendingCountV1 = 0, ReplicationFailedCountV1 = 0\<rparr>)
        (lookup (BucketSizes sizes_only_report) ''b1'')"
    and "len (BucketsUsage ?info) = len (BucketSizes sizes_only_report)"
    by blast+
  moreover
  from compat_maps_are_synthesized [OF read2 dec2 load_usage_only wf2] empty2
  have "lookup (BucketSizes ?info) ''b2'' = map_option Size (lookup (BucketsUsage ?info) ''b2'')"
    and "len (BucketSizes ?info) = len (BucketsUsage ?info)"
    by blast+
  ultimately show ?thesis
    by (simp add: load_sizes_only load_usage_only)
      (simp add: lookup_def len_def sizes_only_report_def legacyUsage_def)
qed



lemma replicationLoop_lookup_fails:
  "(bucket, bui) \<in> set xs \<Longrightarrow> legacyCountersSet bui \<Longrightarrow>
   getReplicationConfig env bucket = Inl e \<Longrightarrow>
   \<exists>e' b. replicationLoop env xs d = Inl e' \<and> getReplicationConfig env b = Inl e'"
proof (induction env xs d rule: replicationLoop.induct)
  case (1 env dataUsageInfo)
  then show ?case by simp
next
  case (2 env bucket' bui' rest dataUsageInfo)
  show ?case
  proof (cases "legacyCountersSet bui'")
    case False
    with "2.prems" have "(bucket, bui) \<in> set rest" by auto
    with False "2.IH"(2) "2.prems" show ?thesis by simp
  next
    case True
    show ?thesis
    proof (cases "getReplicationConfig env bucket'")
      case (Inl err)
      with True show ?thesis by auto
    next
      case (Inr cfg)
      with True "2.prems" have "(bucket, bui) \<in> set rest" by auto
      with True Inr "2.IH"(1) "2.prems" show ?thesis by simp
    qed
  qed
qed

text \<open>
  C5. When the report is read and decoded, and the lookup of the replication
  configuration fails for a bucket of \<^verbatim>\<open>BucketsUsage\<close> that passes the test on its
  legacy counters, \<open>loadDataUsageFromBackend\<close> returns the zero report and an error,
  the one of a failed lookup.
\<close>

theorem failed_config_lookup_aborts_the_load:
  assumes "GetObjectNInfo env (dataUsageBucket env) dataUsageObjName = Inr r"
    and "Decode env r = Inr decoded"
    and "(bucket, bui) \<in> set (entries (BucketsUsage decoded))"
    and "legacyCountersSet bui"
    and "getReplicationConfig env bucket = Inl e"
  shows "\<exists>e' b. loadDataUsageFromBackend env = (zeroDataUsageInfo, Some e') \<and>
           getReplicationConfig env b = Inl e'"
proof -
  from assms(3) have "len (BucketsUsage decoded) \<noteq> 0"
    by (auto simp: len_def)
  then have "entries (BucketsUsage (backwardCompat (forwardCompat decoded))) =
      entries (BucketsUsage decoded)"
    by (simp add: backwardCompat_other forwardCompat_other)
  with assms(3) have "(bucket, bui) \<in>
      set (entries (BucketsUsage (backwardCompat (forwardCompat decoded))))"
    by simp
  from replicationLoop_lookup_fails [OF this assms(4,5)]
  obtain e' b where
    "replicationLoop env (entries (BucketsUsage (backwardCompat (forwardCompat decoded))))
       (backwardCompat (forwardCompat decoded)) = Inl e'"
    and "getReplicationConfig env b = Inl e'"
    by blast
  then show ?thesis
    unfolding load_decoded [OF assms(1,2)] by auto
qed

text \<open>
  The theorem of C5 at a report with legacy counters on \<^verbatim>\<open>b1\<close>, which has a
  configuration, and on \<^verbatim>\<open>b3\<close>, which has none.
\<close>

theorem failed_config_lookup_aborts_the_load_witness:
  "loadDataUsageFromBackend (scenario_backend (Inr ()) (Inr unconfigured_report)) =
     (zeroDataUsageInfo, Some (OtherError ''replication configuration not found''))"
proof -
  let ?env = "scenario_backend (Inr ()) (Inr unconfigured_report)"
  have "GetObjectNInfo ?env (dataUsageBucket ?env) dataUsageObjName = Inr ()"
    and "Decode ?env () = Inr unconfigured_report"
    and "(''b3'', legacyUsage 30 1) \<in> set (entries (BucketsUsage unconfigured_report))"
    and "legacyCountersSet (legacyUsage 30 1)"
    and "getReplicationConfig ?env ''b3'' = Inl (OtherError ''replication configuration not found'')"
    by (simp_all add: scenario_names unconfigured_report_def legacyCountersSet_def
        legacyUsage_def scenario_config_def)
  from failed_config_lookup_aborts_the_load [OF this]
  obtain e' b where res: "loadDataUsageFromBackend ?env = (zeroDataUsageInfo, Some e')"
    and "getReplicationConfig ?env b = Inl e'"
    by blast
  then have "e' = OtherError ''replication configuration not found''"
    by (auto simp: scenario_names scenario_config_def split: if_splits)
  with res show ?thesis by simp
qed

text \<open>
  C2 says that every bucket with legacy counters gets its entry in
  \<^verbatim>\<open>ReplicationInfo\<close>. The loop assigns a fresh map to \<^verbatim>\<open>ReplicationInfo\<close> for each
  such bucket (line 131), so only the bucket visited last keeps its entry. At a report
  whose buckets \<^verbatim>\<open>b1\<close> and \<^verbatim>\<open>b2\<close> both carry a legacy replicated size, the map
  returned has the one entry of \<^verbatim>\<open>arn:b2\<close> and none for \<^verbatim>\<open>arn:b1\<close>; visited in the
  other order, it has the one entry of \<^verbatim>\<open>arn:b1\<close> and none for \<^verbatim>\<open>arn:b2\<close>. The
  legacy fields are returned unchanged.
\<close>

theorem legacy_migration_keeps_one_target_only:
  "loadDataUsageFromBackend (scenario_backend (Inr ()) (Inr two_legacy_report)) =
     (two_legacy_report\<lparr>ReplicationInfo :=
        GoMap [(''arn:b2'',
          \<lparr>ReplicationPendingSize = 0, ReplicationFailedSize = 0, ReplicatedSize = 9,
           ReplicationPendingCount = 0, ReplicationFailedCount = 0\<rparr>)]\<rparr>, None)
   \<and> lookup (ReplicationInfo (fst (loadDataUsageFromBackend
        (scenario_backend (Inr ()) (Inr two_legacy_report))))) ''arn:b1'' = None
   \<and> loadDataUsageFromBackend (scenario_backend (Inr ()) (Inr two_legacy_report_reversed)) =
     (two_legacy_report_reversed\<lparr>ReplicationInfo :=
        GoMap [(''arn:b1'',
          \<lparr>ReplicationPendingSize = 0, ReplicationFailedSize = 0, ReplicatedSize = 7,
           ReplicationPendingCount = 0, ReplicationFailedCount = 0\<rparr>)]\<rparr>, None)
   \<and> lookup (ReplicationInfo (fst (loadDataUsageFromBackend
        (scenario_backend (Inr ()) (Inr two_legacy_report_reversed))))) ''arn:b2'' = None"
  by (simp add: loadDataUsageFromBackend_def scenario_names two_legacy_report_def
      two_legacy_report_reversed_def forwardCompat_def backwardCompat_def len_def lookup_def
      legacyUsage_def legacyCountersSet_def scenario_config_def)

text \<open>
  The test of lines 129 and 130 does not read \<^verbatim>\<open>ReplicationPendingSizeV1\<close>: a bucket
  with that legacy counter alone gets no entry.
\<close>

lemma legacy_pending_size_alone_is_not_migrated:
  "loadDataUsageFromBackend (scenario_backend (Inr ()) (Inr pending_size_report)) =
     (pending_size_report, None)
   \<and> ReplicationInfo pending_size_report = NilMap"
  by (simp add: loadDataUsageFromBackend_def scenario_names pending_size_report_def
      forwardCompat_def backwardCompat_def len_def legacyUsage_def legacyCountersSet_def)

text \<open>
  With one bucket to visit, and that bucket passing the test, the loop does what the
  migration is for: the map is the one entry of the target of the bucket, with the
  legacy values. In general it leaves \<^verbatim>\<open>ReplicationInfo\<close> as it was or with one
  entry.
\<close>

lemma replicationLoop_single_bucket:
  "legacyCountersSet bui \<Longrightarrow> getReplicationConfig env bucket = Inr cfg \<Longrightarrow>
   replicationLoop env [(bucket, bui)] d =
     Inr (d\<lparr>ReplicationInfo :=
            GoMap [(RoleArn cfg,
              \<lparr>ReplicationPendingSize = ReplicationPendingSizeV1 bui,
               ReplicationFailedSize = ReplicationFailedSizeV1 bui,
               ReplicatedSize = ReplicatedSizeV1 bui,
               ReplicationPendingCount = ReplicationPendingCountV1 bui,
               ReplicationFailedCount = ReplicationFailedCountV1 bui\<rparr>)]\<rparr>)"
  by simp

lemma replicationLoop_at_most_one_target:
  "replicationLoop env xs d = Inr d' \<Longrightarrow>
   ReplicationInfo d' = ReplicationInfo d \<or> len (ReplicationInfo d') = 1"
  by (induction env xs d rule: replicationLoop.induct)
    (auto split: if_splits sum.splits simp: len_def)

subsection \<open>Claims on storeDataUsageInBackend\<close>

lemma storeStep_putCalls:
  "putCalls (storeStep env d s) =
   putCalls s @ (case putRequest env d of None \<Rightarrow> [] | Some c \<Rightarrow> [c])"
  by (simp add: storeStep_def putRequest_def Let_def split: sum.split prod.split)

lemma store_putCalls:
  "putCalls (storeDataUsageInBackend env dui s) = putCalls s @ List.map_filter (putRequest env) dui"
  by (induction dui arbitrary: s)
    (simp_all add: map_filter_simps storeStep_putCalls split: option.split)

lemma store_append:
  "storeDataUsageInBackend env (dui @ dui') s =
   storeDataUsageInBackend env dui' (storeDataUsageInBackend env dui s)"
  by (induction dui arbitrary: s) simp_all

lemma length_map_filter_None:
  "length (List.map_filter f xs) + length (filter (\<lambda>x. f x = None) xs) = length xs"
  by (induction xs) (simp_all add: map_filter_simps split: option.split)

lemma LogIf_extends: "\<exists>es. LogIf err log = log @ es"
  by (cases err) simp_all

lemma storeStep_logged:
  "\<exists>es. logged (storeStep env d s) = logged s @ es"
  by (cases "Marshal env d")
    (auto simp: storeStep_def Let_def LogIf_extends split: sum.split prod.split)

text \<open>
  C8. In \<open>storeDataUsageInBackend\<close>, a report that does not serialise (the encoder or
  the reader fails) has its error logged and is dropped: nothing is written and the
  object layer is untouched. A write that fails because the bucket is not found
  changes the log in nothing; a write that fails otherwise has its error logged. In
  every case the loop goes on: each report received after that one still has its call
  of \<^verbatim>\<open>PutObject\<close> when it serialises, and the log only grows.
\<close>

theorem store_failures_never_stop_the_loop:
  "(Marshal env d = Inl e \<longrightarrow> storeStep env d s = s\<lparr>logged := logged s @ [e]\<rparr>)
   \<and> (Marshal env d = Inr json \<and>
       NewReader env json (of_nat (length json)) [] [] (of_nat (length json)) = Inl e \<longrightarrow>
         storeStep env d s = s\<lparr>logged := logged s @ [e]\<rparr>)
   \<and> (putRequest env d = Some (b, ob, reader) \<and>
       PutObject env (objectLayer s) b ob reader = (Some e, objAPI') \<and>
       isErrBucketNotFound (Some e) \<longrightarrow>
         storeStep env d s = s\<lparr>objectLayer := objAPI', putCalls := putCalls s @ [(b, ob, reader)]\<rparr>)
   \<and> (putRequest env d = Some (b, ob, reader) \<and>
       PutObject env (objectLayer s) b ob reader = (Some e, objAPI') \<and>
       \<not> isErrBucketNotFound (Some e) \<longrightarrow>
         storeStep env d s = s\<lparr>objectLayer := objAPI', putCalls := putCalls s @ [(b, ob, reader)],
                               logged := logged s @ [e]\<rparr>)
   \<and> putCalls (storeDataUsageInBackend env (d # dui) s) =
       putCalls (storeStep env d s) @ List.map_filter (putRequest env) dui
   \<and> (\<exists>es. logged (storeDataUsageInBackend env (d # dui) s) = logged (storeStep env d s) @ es)"
proof (intro conjI impI)
  show "\<exists>es. logged (storeDataUsageInBackend env (d # dui) s) = logged (storeStep env d s) @ es"
  proof -
    have "\<exists>es. logged (storeDataUsageInBackend env xs t) = logged t @ es" for xs t
    proof (induction xs arbitrary: t)
      case Nil
      show ?case by simp
    next
      case (Cons x xs)
      from Cons.IH [of "storeStep env x t"] storeStep_logged [of env x t]
      show ?case by auto
    qed
    then show ?thesis by simp
  qed
qed (auto simp: storeStep_def putRequest_def Let_def store_putCalls split: sum.splits)

lemma scenario_store_fields:
  "dataUsageBucket scenario_store = ''.minio.sys/buckets''"
  "Marshal scenario_store d =
     (if len (BucketSizes d) = 1 then Inl (OtherError ''unsupported value'')
      else Inr (replicate (len (BucketSizes d)) 0))"
  "NewReader scenario_store bytes sz md5Hex sha256Hex actualSize =
     (if sz = 0 then Inl (OtherError ''empty input'') else Inr bytes)"
  "PutObject scenario_store calls b ob reader =
     (if calls = 0 then Some BucketNotFound
      else if calls = 1 then Some (OtherError ''write quorum'')
      else None, Suc calls)"
  by (simp_all add: scenario_store_def dataUsageBucket_def SlashSeparator_def)

lemma scenario_lens:
  "len (BucketSizes pending_size_report) = 1"
  "len (BucketSizes sizes_only_report) = 2"
  "len (BucketSizes two_legacy_report) = 2"
  "len (BucketSizes unconfigured_report) = 2"
  "len (BucketSizes zeroDataUsageInfo) = 0"
  by (simp_all add: len_def pending_size_report_def sizes_only_report_def two_legacy_report_def
      unconfigured_report_def zeroDataUsageInfo_def)

lemma scenario_putRequest:
  "putRequest scenario_store pending_size_report = None"
  "putRequest scenario_store zeroDataUsageInfo = None"
  "putRequest scenario_store sizes_only_report =
     Some (''.minio.sys/buckets'', ''.usage.json'', NewPutObjReader [0, 0])"
  "putRequest scenario_store two_legacy_report =
     Some (''.minio.sys/buckets'', ''.usage.json'', NewPutObjReader [0, 0])"
  "putRequest scenario_store unconfigured_report =
     Some (''.minio.sys/buckets'', ''.usage.json'', NewPutObjReader [0, 0])"
  by (simp_all add: putRequest_def scenario_store_fields scenario_lens dataUsageObjName_def
      numeral_2_eq_2)

text \<open>
  The theorem of C8 on five reports: the first does not encode, the second is written
  when the bucket is not found, the third when the write fails otherwise, of the
  fourth no reader is made, and the fifth is written.
\<close>

theorem store_failures_never_stop_the_loop_witness:
  "storeStep scenario_store pending_size_report scenario_start =
     scenario_start\<lparr>logged := [OtherError ''unsupported value'']\<rparr>
   \<and> storeStep scenario_store zeroDataUsageInfo scenario_start =
     scenario_start\<lparr>logged := [OtherError ''empty input'']\<rparr>
   \<and> storeStep scenario_store sizes_only_report scenario_start =
     \<lparr>objectLayer = 1, logged = [],
      putCalls = [(''.minio.sys/buckets'', ''.usage.json'', NewPutObjReader [0, 0])]\<rparr>
   \<and> storeStep scenario_store two_legacy_report \<lparr>objectLayer = 1, logged = [], putCalls = []\<rparr> =
     \<lparr>objectLayer = 2, logged = [OtherError ''write quorum''],
      putCalls = [(''.minio.sys/buckets'', ''.usage.json'', NewPutObjReader [0, 0])]\<rparr>
   \<and> putCalls (storeDataUsageInBackend scenario_store
        [pending_size_report, sizes_only_report, two_legacy_report, zeroDataUsageInfo,
         unconfigured_report] scenario_start) =
     [(''.minio.sys/buckets'', ''.usage.json'', NewPutObjReader [0, 0]),
      (''.minio.sys/buckets'', ''.usage.json'', NewPutObjReader [0, 0]),
      (''.minio.sys/buckets'', ''.usage.json'', NewPutObjReader [0, 0])]"
proof -
  have one: "storeStep scenario_store pending_size_report scenario_start =
      scenario_start\<lparr>logged := [OtherError ''unsupported value'']\<rparr>"
    using store_failures_never_stop_the_loop
      [where env = scenario_store and d = pending_size_report and s = scenario_start
        and e = "OtherError ''unsupported value''"]
    by (simp add: scenario_store_fields scenario_lens scenario_start_def)
  have two: "storeStep scenario_store zeroDataUsageInfo scenario_start =
      scenario_start\<lparr>logged := [OtherError ''empty input'']\<rparr>"
    using store_failures_never_stop_the_loop
      [where env = scenario_store and d = zeroDataUsageInfo and s = scenario_start
        and e = "OtherError ''empty input''" and json = "[]"]
    by (simp add: scenario_store_fields scenario_lens scenario_start_def)
  have three: "storeStep scenario_store sizes_only_report scenario_start =
      \<lparr>objectLayer = 1, logged = [],
       putCalls = [(''.minio.sys/buckets'', ''.usage.json'', NewPutObjReader [0, 0])]\<rparr>"
    using store_failures_never_stop_the_loop
      [where env = scenario_store and d = sizes_only_report and s = scenario_start
        and e = BucketNotFound and b = "''.minio.sys/buckets''" and ob = "''.usage.json''"
        and reader = "NewPutObjReader [0, 0]" and objAPI' = 1]
    by (simp add: scenario_store_fields scenario_putRequest scenario_start_def)
  have four: "storeStep scenario_store two_legacy_report
        \<lparr>objectLayer = 1, logged = [], putCalls = []\<rparr> =
      \<lparr>objectLayer = 2, logged = [OtherError ''write quorum''],
       putCalls = [(''.minio.sys/buckets'', ''.usage.json'', NewPutObjReader [0, 0])]\<rparr>"
    using store_failures_never_stop_the_loop
      [where env = scenario_store and d = two_legacy_report
        and s = "\<lparr>objectLayer = 1, logged = [], putCalls = []\<rparr>"
        and e = "OtherError ''write quorum''" and b = "''.minio.sys/buckets''"
        and ob = "''.usage.json''" and reader = "NewPutObjReader [0, 0]" and objAPI' = 2]
    by (simp add: scenario_store_fields scenario_putRequest)
  let ?rest = "[sizes_only_report, two_legacy_report, zeroDataUsageInfo, unconfigured_report]"
  from store_failures_never_stop_the_loop
      [where env = scenario_store and d = pending_size_report and s = scenario_start
        and dui = ?rest]
  have "putCalls (storeDataUsageInBackend scenario_store (pending_size_report # ?rest)
        scenario_start) =
      putCalls (storeStep scenario_store pending_size_report scenario_start) @
      List.map_filter (putRequest scenario_store) ?rest"
    by blast
  then have five: "putCalls (storeDataUsageInBackend scenario_store
        [pending_size_report, sizes_only_report, two_legacy_report, zeroDataUsageInfo,
         unconfigured_report] scenario_start) =
      [(''.minio.sys/buckets'', ''.usage.json'', NewPutObjReader [0, 0]),
       (''.minio.sys/buckets'', ''.usage.json'', NewPutObjReader [0, 0]),
       (''.minio.sys/buckets'', ''.usage.json'', NewPutObjReader [0, 0])]"
    unfolding one by (simp add: scenario_putRequest map_filter_simps scenario_start_def)
  from one two three four five show ?thesis by blast
qed

text \<open>
  C9. Feeding \<open>N\<close> reports to \<open>storeDataUsageInBackend\<close> and closing the channel makes
  one store attempt per report, in the order received: the calls of \<^verbatim>\<open>PutObject\<close> are
  those of the reports that serialise, in order, each once, and every other report
  ends its attempt at the serialisation, so that the calls and the serialisation
  failures are \<open>N\<close> together, and \<open>N\<close> calls when every report serialises. A report is
  handled when the ones before it are done with, and after the last one, or on a
  channel closed at once, nothing more is done.
\<close>

theorem every_report_is_stored_once_in_order:
  "putCalls (storeDataUsageInBackend env dui s) = putCalls s @ List.map_filter (putRequest env) dui
   \<and> length (putCalls (storeDataUsageInBackend env dui s)) +
       length (filter (\<lambda>d. putRequest env d = None) dui) =
       length (putCalls s) + length dui
   \<and> ((\<forall>d \<in> set dui. putRequest env d \<noteq> None) \<longrightarrow>
        length (putCalls (storeDataUsageInBackend env dui s)) = length (putCalls s) + length dui)
   \<and> storeDataUsageInBackend env (dui @ dui') s =
       storeDataUsageInBackend env dui' (storeDataUsageInBackend env dui s)
   \<and> storeDataUsageInBackend env (dui @ [d]) s = storeStep env d (storeDataUsageInBackend env dui s)
   \<and> storeDataUsageInBackend env [] s = s"
proof (intro conjI impI)
  show count: "length (putCalls (storeDataUsageInBackend env dui s)) +
       length (filter (\<lambda>d. putRequest env d = None) dui) =
       length (putCalls s) + length dui"
    using length_map_filter_None [of "putRequest env" dui] by (simp add: store_putCalls)
  assume "\<forall>d \<in> set dui. putRequest env d \<noteq> None"
  then have "filter (\<lambda>d. putRequest env d = None) dui = []"
    by (simp add: filter_empty_conv)
  with count show "length (putCalls (storeDataUsageInBackend env dui s)) =
      length (putCalls s) + length dui"
    by simp
qed (simp_all add: store_putCalls store_append)

text \<open>The theorem of C9 on three reports that serialise: three writes, in order.\<close>

theorem every_report_is_stored_once_in_order_witness:
  "putCalls (storeDataUsageInBackend scenario_store
      [sizes_only_report, two_legacy_report, unconfigured_report] scenario_start) =
     [(''.minio.sys/buckets'', ''.usage.json'', NewPutObjReader [0, 0]),
      (''.minio.sys/buckets'', ''.usage.json'', NewPutObjReader [0, 0]),
      (''.minio.sys/buckets'', ''.usage.json'', NewPutObjReader [0, 0])]
   \<and> length (putCalls (storeDataUsageInBackend scenario_store
      [sizes_only_report, two_legacy_report, unconfigured_report] scenario_start)) = 3
   \<and> objectLayer (storeDataUsageInBackend scenario_store
      [sizes_only_report, two_legacy_report, unconfigured_report] scenario_start) = 3"
proof -
  let ?dui = "[sizes_only_report, two_legacy_report, unconfigured_report]"
  have all: "\<forall>d \<in> set ?dui. putRequest scenario_store d \<noteq> None"
    by (simp add: scenario_putRequest)
  from every_report_is_stored_once_in_order [of scenario_store ?dui scenario_start] all
  have "putCalls (storeDataUsageInBackend scenario_store ?dui scenario_start) =
      putCalls scenario_start @ List.map_filter (putRequest scenario_store) ?dui"
    and "length (putCalls (storeDataUsageInBackend scenario_store ?dui scenario_start)) =
      length (putCalls scenario_start) + length ?dui"
    by blast+
  moreover have "objectLayer (storeDataUsageInBackend scenario_store ?dui scenario_start) = 3"
    by (simp add: storeStep_def scenario_store_fields scenario_lens scenario_start_def
        numeral_2_eq_2)
  ultimately show ?thesis
    by (simp add: scenario_putRequest map_filter_simps scenario_start_def)
qed

end
